theory Spec2Isabelle
  imports Main
begin

section \<open>Data model\<close>

text \<open>
  The session and token lifecycle of \<^verbatim>\<open>src/modules/auth/auth.service.ts\<close>:
  the three methods \<^verbatim>\<open>register\<close>, \<^verbatim>\<open>login\<close> and \<^verbatim>\<open>refreshToken\<close> of
  \<^verbatim>\<open>AuthService\<close>. Documents are records, the three collections are lists in
  insertion order, a thrown exception is the left injection of a sum, and every method
  takes the database and returns it updated. Times are milliseconds since the epoch, as
  \<^verbatim>\<open>Date.getTime()\<close> and \<^verbatim>\<open>Date.now()\<close> give them; one call of a method reads the
  clock as the single value \<open>now\<close>. The \<^verbatim>\<open>logger\<close> calls write to neither the result
  nor a collection and are left out.
\<close>

type_synonym objectId = nat
type_synonym time = int

text \<open>
  Modelled from the spec: \<^verbatim>\<open>common/enums/error-code.enum\<close> and
  \<^verbatim>\<open>common/utils/catch-error\<close> are not among the sources. The spec gives two classes
  of failure, BadRequest and Unauthorized, and names the codes \<open>AUTH_EMAIL_ALREADY_EXISTS\<close>
  and \<open>AUTH_USER_NOT_FOUND\<close>, the two the service uses. A failure is recorded as the
  service builds it: its class, the message and the code handed to the constructor. The
  code is optional, since the service hands one to \<^verbatim>\<open>BadRequestException\<close> and none to
  \<^verbatim>\<open>UnauthorizedException\<close>; neither the sources nor the spec say what a class puts in
  the place of a code it was not given, and nothing is put there here.
\<close>

datatype ErrorCode =
    AUTH_EMAIL_ALREADY_EXISTS
  | AUTH_USER_NOT_FOUND

datatype error_class = BadRequest | Unauthorized

record app_error =
  e_class :: error_class
  e_message :: string
  e_errorCode :: "ErrorCode option"

definition BadRequestException :: "string \<Rightarrow> ErrorCode option \<Rightarrow> app_error" where
  "BadRequestException msg code =
     \<lparr>e_class = BadRequest, e_message = msg, e_errorCode = code\<rparr>"

definition UnauthorizedException :: "string \<Rightarrow> ErrorCode option \<Rightarrow> app_error" where
  "UnauthorizedException msg code =
     \<lparr>e_class = Unauthorized, e_message = msg, e_errorCode = code\<rparr>"

text \<open>
  \<^verbatim>\<open>VerificationEnum\<close>: the service uses \<^verbatim>\<open>EMAIL_VERIFICATION\<close> only; the spec
  speaks of a type tag with more than one value.
\<close>

datatype VerificationEnum = EMAIL_VERIFICATION | PASSWORD_RESET

record user =
  u_id :: objectId
  u_name :: string
  u_email :: string
  u_password :: string
  u_enable2FA :: bool

record session =
  s_id :: objectId
  s_userId :: objectId
  s_userAgent :: string
  s_expiredAt :: time

record verification =
  v_id :: objectId
  v_userId :: objectId
  v_type :: VerificationEnum
  v_expiresAt :: time

text \<open>
  Every access to a collection is recorded in \<open>calls\<close>, in the order the service makes
  them, so that a statement about what was consulted, and when, is a statement about the
  returned database.
\<close>

datatype store_call =
    UserExists string
  | UserCreate objectId
  | UserFindOne string
  | SessionCreate objectId
  | SessionFindById objectId
  | SessionSave objectId
  | VerificationCreate objectId

record db =
  users :: "user list"
  sessions :: "session list"
  verificationCodes :: "verification list"
  calls :: "store_call list"

record RegisterDto =
  r_name :: string
  r_email :: string
  r_password :: string

record LoginDto =
  l_email :: string
  l_password :: string
  l_userAgent :: string

text \<open>
  The payload of a token: \<^verbatim>\<open>{userId, sessionId}\<close> in an access token,
  \<^verbatim>\<open>{sessionId}\<close> alone (\<^verbatim>\<open>RefreshTPayload\<close>) in a refresh token.
\<close>

record jwt_payload =
  p_userId :: "objectId option"
  p_sessionId :: objectId

record sign_options =
  secret :: string
  expiresIn :: nat

text \<open>
  What the service imports and this repository's sources do not hold is a parameter:
  the token codec of \<^verbatim>\<open>common/utils/jwt\<close> (\<^verbatim>\<open>signJwtToken\<close> with its optional
  options, absent for an access token; \<^verbatim>\<open>verifyJwtToken\<close>, whose result has a payload
  or an error), the password hashing of the user model (\<^verbatim>\<open>comparePassword\<close> and the
  hashing on creation), the preference a new user starts with, and the configuration
  (\<^verbatim>\<open>refreshTokenSignOptions\<close>, and \<^verbatim>\<open>config.JWT.REFRESH_EXPIRES_IN\<close> as a number of
  milliseconds).
\<close>

record env =
  signJwtToken :: "jwt_payload \<Rightarrow> sign_options option \<Rightarrow> string"
  verifyJwtToken :: "string \<Rightarrow> string \<Rightarrow> jwt_payload option"
  hashValue :: "string \<Rightarrow> string"
  comparePassword :: "string \<Rightarrow> string \<Rightarrow> bool"
  defaultEnable2FA :: bool
  refreshTokenSignOptions :: sign_options
  REFRESH_EXPIRES_IN :: nat

section \<open>Clock helpers\<close>

text \<open>
  Modelled from the spec: \<^verbatim>\<open>common/utils/date-time\<close> is not among the sources. The
  rotation threshold is one day, the verification-code lifetime is 45 minutes, and an
  expiration date is the current time plus the configured lifetime.
\<close>

definition ONE_DAY_IN_MS :: int where
  "ONE_DAY_IN_MS = 24 * 60 * 60 * 1000"

definition calculateExpirationDate :: "time \<Rightarrow> nat \<Rightarrow> time" where
  "calculateExpirationDate now ttl = now + int ttl"

definition fortyFiveMinutesFromNow :: "time \<Rightarrow> time" where
  "fortyFiveMinutesFromNow now = now + 45 * 60 * 1000"

section \<open>The collections\<close>

text \<open>
  Modelled from the spec: the models under \<^verbatim>\<open>database/models\<close> are not among the
  sources. Each collection offers atomic single-record create, read and update; a created
  record gets an identifier no record of its collection has; a new session expires one
  refresh lifetime after its creation; \<^verbatim>\<open>save\<close> rewrites the stored record that has
  the document's identifier.
\<close>

definition newObjectId :: "objectId list \<Rightarrow> objectId" where
  "newObjectId ids = Suc (foldr max ids 0)"

definition UserModel_exists :: "string \<Rightarrow> db \<Rightarrow> bool \<times> db" where
  "UserModel_exists e d =
     (find (\<lambda>u. u_email u = e) (users d) \<noteq> None,
      d\<lparr>calls := calls d @ [UserExists e]\<rparr>)"

definition UserModel_findOne :: "string \<Rightarrow> db \<Rightarrow> user option \<times> db" where
  "UserModel_findOne e d =
     (find (\<lambda>u. u_email u = e) (users d),
      d\<lparr>calls := calls d @ [UserFindOne e]\<rparr>)"

definition UserModel_create :: "env \<Rightarrow> string \<Rightarrow> string \<Rightarrow> string \<Rightarrow> db \<Rightarrow> user \<times> db" where
  "UserModel_create env name email password d =
     (let u = \<lparr>u_id = newObjectId (map u_id (users d)), u_name = name, u_email = email,
               u_password = hashValue env password, u_enable2FA = defaultEnable2FA env\<rparr>
      in (u, d\<lparr>users := users d @ [u], calls := calls d @ [UserCreate (u_id u)]\<rparr>))"

definition VerificationCodeModel_create ::
  "objectId \<Rightarrow> VerificationEnum \<Rightarrow> time \<Rightarrow> db \<Rightarrow> verification \<times> db" where
  "VerificationCodeModel_create userId ty expiresAt d =
     (let v = \<lparr>v_id = newObjectId (map v_id (verificationCodes d)), v_userId = userId,
               v_type = ty, v_expiresAt = expiresAt\<rparr>
      in (v, d\<lparr>verificationCodes := verificationCodes d @ [v],
                calls := calls d @ [VerificationCreate (v_id v)]\<rparr>))"

definition SessionModel_create :: "env \<Rightarrow> time \<Rightarrow> objectId \<Rightarrow> string \<Rightarrow> db \<Rightarrow> session \<times> db" where
  "SessionModel_create env now userId userAgent d =
     (let s = \<lparr>s_id = newObjectId (map s_id (sessions d)), s_userId = userId,
               s_userAgent = userAgent,
               s_expiredAt = calculateExpirationDate now (REFRESH_EXPIRES_IN env)\<rparr>
      in (s, d\<lparr>sessions := sessions d @ [s], calls := calls d @ [SessionCreate (s_id s)]\<rparr>))"

definition SessionModel_findById :: "objectId \<Rightarrow> db \<Rightarrow> session option \<times> db" where
  "SessionModel_findById i d =
     (find (\<lambda>s. s_id s = i) (sessions d),
      d\<lparr>calls := calls d @ [SessionFindById i]\<rparr>)"

fun replaceById :: "session \<Rightarrow> session list \<Rightarrow> session list" where
  "replaceById s [] = []"
| "replaceById s (x # xs) = (if s_id x = s_id s then s # xs else x # replaceById s xs)"

definition session_save :: "session \<Rightarrow> db \<Rightarrow> db" where
  "session_save s d =
     d\<lparr>sessions := replaceById s (sessions d), calls := calls d @ [SessionSave (s_id s)]\<rparr>"

section \<open>The service\<close>

record register_result =
  reg_user :: user

record login_result =
  lg_user :: "user option"
  lg_accessToken :: string
  lg_refreshToken :: string
  lg_mfaRequired :: bool

record refresh_result =
  rf_accessToken :: string
  rf_newRefreshToken :: "string option"

text \<open>
  \<^verbatim>\<open>register\<close> (lines 14 to 46): the existence check, the throw, the creation of
  the user, then of the verification code, and the result \<^verbatim>\<open>{user: newUser}\<close>.
\<close>

definition register :: "env \<Rightarrow> time \<Rightarrow> RegisterDto \<Rightarrow> db \<Rightarrow> (app_error + register_result) \<times> db" where
  "register env now registerData d0 =
     (let (existingUser, d1) = UserModel_exists (r_email registerData) d0 in
      if existingUser then
        (Inl (BadRequestException ''User already exists with this email''
                (Some AUTH_EMAIL_ALREADY_EXISTS)), d1)
      else
        let (newUser, d2) = UserModel_create env (r_name registerData) (r_email registerData)
                              (r_password registerData) d1;
            userId = u_id newUser;
            (verification, d3) = VerificationCodeModel_create userId EMAIL_VERIFICATION
                                   (fortyFiveMinutesFromNow now) d2
        in (Inr \<lparr>reg_user = newUser\<rparr>, d3))"

text \<open>
  \<^verbatim>\<open>login\<close> (lines 48 to 110): the lookup by email and its throw, the password check
  and its throw, the early return when \<^verbatim>\<open>user.userPreferences.enable2FA\<close> is set, then
  the creation of the session and the two calls of \<^verbatim>\<open>signJwtToken\<close>, the first without
  options, the second with \<^verbatim>\<open>refreshTokenSignOptions\<close>.
\<close>

definition login :: "env \<Rightarrow> time \<Rightarrow> LoginDto \<Rightarrow> db \<Rightarrow> (app_error + login_result) \<times> db" where
  "login env now loginData d0 =
     (let (found, d1) = UserModel_findOne (l_email loginData) d0 in
      case found of
        None \<Rightarrow>
          (Inl (BadRequestException ''Invalid email or password provided''
                  (Some AUTH_USER_NOT_FOUND)), d1)
      | Some user \<Rightarrow>
          let isPasswordValid = comparePassword env (l_password loginData) (u_password user) in
          if \<not> isPasswordValid then
            (Inl (BadRequestException ''Invalid email or password provided''
                    (Some AUTH_USER_NOT_FOUND)), d1)
          else if u_enable2FA user then
            (Inr \<lparr>lg_user = None, lg_accessToken = '''', lg_refreshToken = '''',
                  lg_mfaRequired = True\<rparr>, d1)
          else
            let (session, d2) = SessionModel_create env now (u_id user) (l_userAgent loginData) d1;
                accessToken = signJwtToken env
                                \<lparr>p_userId = Some (u_id user), p_sessionId = s_id session\<rparr> None;
                refreshToken = signJwtToken env
                                 \<lparr>p_userId = None, p_sessionId = s_id session\<rparr>
                                 (Some (refreshTokenSignOptions env))
            in (Inr \<lparr>lg_user = Some user, lg_accessToken = accessToken,
                     lg_refreshToken = refreshToken, lg_mfaRequired = False\<rparr>, d2))"

text \<open>
  \<^verbatim>\<open>refreshToken\<close> (lines 112 to 159): verification under the refresh secret and
  its throw, the lookup of the session, the two throws for a missing and for an expired
  session (\<^verbatim>\<open>session.expiredAt.getTime() <= now\<close>), the test
  \<^verbatim>\<open>session.expiredAt.getTime() - now <= ONE_DAY_IN_MS\<close>, under which the document gets
  a new \<^verbatim>\<open>expiredAt\<close> and is saved, the new refresh token under the same test, and the
  access token read from the document as it then is.
\<close>

definition refreshToken :: "env \<Rightarrow> time \<Rightarrow> string \<Rightarrow> db \<Rightarrow> (app_error + refresh_result) \<times> db" where
  "refreshToken env now token d0 =
     (case verifyJwtToken env token (secret (refreshTokenSignOptions env)) of
        None \<Rightarrow> (Inl (UnauthorizedException ''Invalid refresh token'' None), d0)
      | Some payload \<Rightarrow>
          let (found, d1) = SessionModel_findById (p_sessionId payload) d0 in
          (case found of
            None \<Rightarrow> (Inl (UnauthorizedException ''Session does not exist'' None), d1)
          | Some session \<Rightarrow>
              if s_expiredAt session \<le> now then
                (Inl (UnauthorizedException ''Session expired'' None), d1)
              else
                let sessionRequireRefresh = (s_expiredAt session - now \<le> ONE_DAY_IN_MS);
                    session' = (if sessionRequireRefresh
                                then session\<lparr>s_expiredAt :=
                                       calculateExpirationDate now (REFRESH_EXPIRES_IN env)\<rparr>
                                else session);
                    d2 = (if sessionRequireRefresh then session_save session' d1 else d1);
                    newRefreshToken =
                      (if sessionRequireRefresh
                       then Some (signJwtToken env
                                    \<lparr>p_userId = None, p_sessionId = s_id session'\<rparr>
                                    (Some (refreshTokenSignOptions env)))
                       else None);
                    accessToken = signJwtToken env
                                    \<lparr>p_userId = Some (s_userId session'),
                                     p_sessionId = s_id session'\<rparr> None
                in (Inr \<lparr>rf_accessToken = accessToken,
                         rf_newRefreshToken = newRefreshToken\<rparr>, d2)))"

section \<open>Session lifetimes across an operation\<close>

text \<open>
  \<open>expiredAt_nondecreasing before after\<close>: every session of \<open>before\<close> is still at its
  place in \<open>after\<close>, under the same identifier, and expires no earlier than it did.
  \<open>expires_within bound ss\<close>: no session of \<open>ss\<close> expires after \<open>bound\<close>.
\<close>

fun expiredAt_nondecreasing :: "session list \<Rightarrow> session list \<Rightarrow> bool" where
  "expiredAt_nondecreasing [] after = True"
| "expiredAt_nondecreasing (x # before) [] = False"
| "expiredAt_nondecreasing (x # before) (y # after) =
     (s_id y = s_id x \<and> s_expiredAt x \<le> s_expiredAt y \<and> expiredAt_nondecreasing before after)"

definition expires_within :: "time \<Rightarrow> session list \<Rightarrow> bool" where
  "expires_within bound ss = list_all (\<lambda>s. s_expiredAt s \<le> bound) ss"

section \<open>A concrete deployment\<close>

text \<open>
  A small instance on which the theorems below are evaluated: a token is its secret, the
  user id in unary (or a dash when the payload has none) and the session id in unary,
  separated by dots; a stored password is the submitted one behind the prefix \<open>h:\<close>;
  the refresh lifetime is thirty days, and one hour in \<open>short_lived_env\<close>. The database
  holds a user without and a user with two-factor authentication, and three sessions:
  twelve hours from expiry, two days from expiry and already expired, at time 0.
\<close>

definition example_sign :: "jwt_payload \<Rightarrow> sign_options option \<Rightarrow> string" where
  "example_sign p opts =
     (case opts of None \<Rightarrow> ''access-secret'' | Some so \<Rightarrow> secret so) @ ''.'' @
     (case p_userId p of None \<Rightarrow> ''-'' | Some u \<Rightarrow> replicate u (CHR ''u'')) @ ''.'' @
     replicate (p_sessionId p) (CHR ''s'')"

definition example_verify :: "string \<Rightarrow> string \<Rightarrow> jwt_payload option" where
  "example_verify t sec =
     (let notdot = (\<lambda>c. c \<noteq> CHR ''.'');
          key = takeWhile notdot t;
          body = drop 1 (dropWhile notdot t);
          uid = takeWhile notdot body;
          sid = drop 1 (dropWhile notdot body)
      in if key = sec
         then Some \<lparr>p_userId = (if uid = ''-'' then None else Some (length uid)),
                    p_sessionId = length sid\<rparr>
         else None)"

definition example_env :: env where
  "example_env =
     \<lparr>signJwtToken = example_sign, verifyJwtToken = example_verify,
      hashValue = (\<lambda>p. ''h:'' @ p), comparePassword = (\<lambda>p h. h = ''h:'' @ p),
      defaultEnable2FA = False,
      refreshTokenSignOptions = \<lparr>secret = ''refresh-secret'', expiresIn = 2592000000\<rparr>,
      REFRESH_EXPIRES_IN = 2592000000\<rparr>"

definition short_lived_env :: env where
  "short_lived_env = example_env\<lparr>REFRESH_EXPIRES_IN := 3600000\<rparr>"

definition example_db :: db where
  "example_db =
     \<lparr>users = [\<lparr>u_id = 1, u_name = ''Ama'', u_email = ''ama@example.com'',
                 u_password = ''h:pw-ama'', u_enable2FA = False\<rparr>,
                \<lparr>u_id = 2, u_name = ''Kofi'', u_email = ''kofi@example.com'',
                 u_password = ''h:pw-kofi'', u_enable2FA = True\<rparr>],
      sessions = [\<lparr>s_id = 1, s_userId = 1, s_userAgent = ''curl'', s_expiredAt = 43200000\<rparr>,
                   \<lparr>s_id = 2, s_userId = 1, s_userAgent = ''firefox'', s_expiredAt = 172800000\<rparr>,
                   \<lparr>s_id = 3, s_userId = 2, s_userAgent = ''safari'', s_expiredAt = -1\<rparr>],
      verificationCodes = [],
      calls = []\<rparr>"

lemmas example_defs =
  example_env_def example_db_def example_sign_def example_verify_def

lemmas store_defs =
  UserModel_exists_def UserModel_findOne_def UserModel_create_def
  VerificationCodeModel_create_def SessionModel_create_def SessionModel_findById_def
  session_save_def newObjectId_def

lemmas clock_defs =
  ONE_DAY_IN_MS_def calculateExpirationDate_def fortyFiveMinutesFromNow_def

section \<open>Facts about the session collection\<close>

lemma find_by_id: "find (\<lambda>x. s_id x = i) ss = Some s \<Longrightarrow> s_id s = i"
  by (induction ss) (auto split: if_splits)

lemma find_in_set: "find P ss = Some s \<Longrightarrow> s \<in> set ss"
  by (induction ss) (auto split: if_splits)

lemma find_replaceById:
  "find (\<lambda>x. s_id x = s_id s) ss = Some s0 \<Longrightarrow>
   find (\<lambda>x. s_id x = s_id s) (replaceById s ss) = Some s"
  by (induction ss) (auto split: if_splits)

lemma newObjectId_bound: "(i::nat) \<in> set ids \<Longrightarrow> i \<le> foldr max ids 0"
  by (induction ids) auto

lemma newObjectId_fresh: "newObjectId ids \<notin> set ids"
  using newObjectId_bound [of "newObjectId ids" ids] by (auto simp: newObjectId_def)

lemma replicate_numeral_unfold: "replicate (numeral k) x = x # replicate (pred_numeral k) x"
  by (simp add: numeral_eq_Suc)

section \<open>refreshToken: rotation\<close>

text \<open>
  C1. A refresh token that verifies under the refresh secret and names a stored session
  that expires strictly after \<open>now\<close> yields an access token signed, with the default
  options, over the session's user id and the session id. A new refresh token, over the
  session id alone and signed with the refresh options, is returned exactly when
  \<open>expiredAt - now \<le> ONE_DAY_IN_MS\<close>; then the stored session is rewritten with
  \<open>expiredAt = now + REFRESH_EXPIRES_IN\<close> and a later lookup finds it so. Otherwise
  \<open>newRefreshToken\<close> is undefined and the sessions are left as they were.
\<close>

theorem refreshToken_rotation:
  assumes "verifyJwtToken env token (secret (refreshTokenSignOptions env)) = Some payload"
    and "fst (SessionModel_findById (p_sessionId payload) d) = Some session"
    and "now < s_expiredAt session"
  shows "fst (refreshToken env now token d) =
           Inr \<lparr>rf_accessToken =
                  signJwtToken env \<lparr>p_userId = Some (s_userId session),
                                    p_sessionId = p_sessionId payload\<rparr> None,
                rf_newRefreshToken =
                  (if s_expiredAt session - now \<le> ONE_DAY_IN_MS
                   then Some (signJwtToken env \<lparr>p_userId = None,
                                                 p_sessionId = p_sessionId payload\<rparr>
                                (Some (refreshTokenSignOptions env)))
                   else None)\<rparr>
         \<and> (if s_expiredAt session - now \<le> ONE_DAY_IN_MS
            then sessions (snd (refreshToken env now token d)) =
                   replaceById (session\<lparr>s_expiredAt := now + int (REFRESH_EXPIRES_IN env)\<rparr>)
                     (sessions d)
                 \<and> fst (SessionModel_findById (p_sessionId payload)
                          (snd (refreshToken env now token d))) =
                   Some (session\<lparr>s_expiredAt := now + int (REFRESH_EXPIRES_IN env)\<rparr>)
                 \<and> calls (snd (refreshToken env now token d)) =
                   calls d @ [SessionFindById (p_sessionId payload),
                              SessionSave (p_sessionId payload)]
            else sessions (snd (refreshToken env now token d)) = sessions d
                 \<and> calls (snd (refreshToken env now token d)) =
                   calls d @ [SessionFindById (p_sessionId payload)])"
proof -
  from assms(2) have f: "find (\<lambda>s. s_id s = p_sessionId payload) (sessions d) = Some session"
    by (simp add: SessionModel_findById_def)
  then have i: "s_id session = p_sessionId payload"
    by (rule find_by_id)
  let ?s = "session\<lparr>s_expiredAt := now + int (REFRESH_EXPIRES_IN env)\<rparr>"
  have r: "find (\<lambda>x. s_id x = p_sessionId payload) (replaceById ?s (sessions d)) = Some ?s"
    using find_replaceById [of ?s "sessions d" session] f i by simp
  show ?thesis
    using assms(1,3) f i r
    by (simp add: refreshToken_def SessionModel_findById_def session_save_def
        calculateExpirationDate_def Let_def)
qed

text \<open>
  At time 0 the session twelve hours from expiry is rotated to thirty days; the session
  two days from expiry is not.
\<close>

theorem refreshToken_rotation_witness:
  "verifyJwtToken example_env ''refresh-secret.-.s'' (secret (refreshTokenSignOptions example_env))
     = Some \<lparr>p_userId = None, p_sessionId = 1\<rparr>
   \<and> fst (SessionModel_findById 1 example_db) =
       Some \<lparr>s_id = 1, s_userId = 1, s_userAgent = ''curl'', s_expiredAt = 43200000\<rparr>
   \<and> fst (refreshToken example_env 0 ''refresh-secret.-.s'' example_db) =
       Inr \<lparr>rf_accessToken = ''access-secret.u.s'',
            rf_newRefreshToken = Some ''refresh-secret.-.s''\<rparr>
   \<and> map s_expiredAt (sessions (snd (refreshToken example_env 0 ''refresh-secret.-.s'' example_db)))
       = [2592000000, 172800000, - 1]
   \<and> fst (refreshToken example_env 0 ''refresh-secret.-.ss'' example_db) =
       Inr \<lparr>rf_accessToken = ''access-secret.u.ss'', rf_newRefreshToken = None\<rparr>
   \<and> sessions (snd (refreshToken example_env 0 ''refresh-secret.-.ss'' example_db))
       = sessions example_db"
proof -
  have v1: "verifyJwtToken example_env ''refresh-secret.-.s''
              (secret (refreshTokenSignOptions example_env))
            = Some \<lparr>p_userId = None, p_sessionId = 1\<rparr>"
    by (simp add: example_defs)
  have f1: "fst (SessionModel_findById (p_sessionId \<lparr>p_userId = None, p_sessionId = 1\<rparr>) example_db)
            = Some \<lparr>s_id = 1, s_userId = 1, s_userAgent = ''curl'', s_expiredAt = 43200000\<rparr>"
    by (simp add: example_defs store_defs)
  have e1: "0 < s_expiredAt \<lparr>s_id = 1, s_userId = 1, s_userAgent = ''curl'',
                              s_expiredAt = 43200000\<rparr>"
    by simp
  have v2: "verifyJwtToken example_env ''refresh-secret.-.ss''
              (secret (refreshTokenSignOptions example_env))
            = Some \<lparr>p_userId = None, p_sessionId = 2\<rparr>"
    by (simp add: example_defs)
  have f2: "fst (SessionModel_findById (p_sessionId \<lparr>p_userId = None, p_sessionId = 2\<rparr>) example_db)
            = Some \<lparr>s_id = 2, s_userId = 1, s_userAgent = ''firefox'', s_expiredAt = 172800000\<rparr>"
    by (simp add: example_defs store_defs)
  have e2: "0 < s_expiredAt \<lparr>s_id = 2, s_userId = 1, s_userAgent = ''firefox'',
                              s_expiredAt = 172800000\<rparr>"
    by simp
  show ?thesis
    using v1 f1 refreshToken_rotation [OF v1 f1 e1] refreshToken_rotation [OF v2 f2 e2]
    by (simp add: example_defs clock_defs replicate_numeral_unfold)
qed

section \<open>login: failures\<close>

text \<open>
  C2. A login with an email no user has and a login with the email of a user whose
  password does not verify fail with the same value: a BadRequest carrying the code
  \<open>AUTH_USER_NOT_FOUND\<close> and the message \<open>Invalid email or password provided\<close>,
  whatever the two databases, clocks and environments are.
\<close>

theorem login_uniform_failure:
  assumes "fst (UserModel_findOne (l_email a) da) = None"
    and "fst (UserModel_findOne (l_email b) db) = Some u"
    and "\<not> comparePassword envb (l_password b) (u_password u)"
  shows "fst (login enva ta a da) = fst (login envb tb b db)
         \<and> fst (login enva ta a da) =
             Inl (BadRequestException ''Invalid email or password provided''
                    (Some AUTH_USER_NOT_FOUND))
         \<and> fst (login envb tb b db) =
             Inl \<lparr>e_class = BadRequest, e_message = ''Invalid email or password provided'',
                  e_errorCode = Some AUTH_USER_NOT_FOUND\<rparr>"
  using assms
  by (simp add: login_def UserModel_findOne_def BadRequestException_def Let_def)

theorem login_uniform_failure_witness:
  "fst (UserModel_findOne ''nobody@example.com'' example_db) = None
   \<and> fst (UserModel_findOne ''ama@example.com'' example_db) =
       Some \<lparr>u_id = 1, u_name = ''Ama'', u_email = ''ama@example.com'',
             u_password = ''h:pw-ama'', u_enable2FA = False\<rparr>
   \<and> \<not> comparePassword example_env ''guess'' ''h:pw-ama''
   \<and> fst (login example_env 0
            \<lparr>l_email = ''nobody@example.com'', l_password = ''guess'', l_userAgent = ''curl''\<rparr>
            example_db) =
       fst (login example_env 7
            \<lparr>l_email = ''ama@example.com'', l_password = ''guess'', l_userAgent = ''curl''\<rparr>
            example_db)"
proof -
  let ?a = "\<lparr>l_email = ''nobody@example.com'', l_password = ''guess'', l_userAgent = ''curl''\<rparr>"
  let ?b = "\<lparr>l_email = ''ama@example.com'', l_password = ''guess'', l_userAgent = ''curl''\<rparr>"
  let ?u = "\<lparr>u_id = 1, u_name = ''Ama'', u_email = ''ama@example.com'',
             u_password = ''h:pw-ama'', u_enable2FA = False\<rparr>"
  have na: "fst (UserModel_findOne (l_email ?a) example_db) = None"
    by (simp add: example_db_def UserModel_findOne_def)
  have fb: "fst (UserModel_findOne (l_email ?b) example_db) = Some ?u"
    by (simp add: example_db_def UserModel_findOne_def)
  have wrong: "\<not> comparePassword example_env (l_password ?b) (u_password ?u)"
    by (simp add: example_env_def)
  from login_uniform_failure [OF na fb wrong, of example_env 0 7] na fb wrong
  show ?thesis by simp
qed

section \<open>login: the two-factor gate\<close>

text \<open>
  C3. When the user exists, the password verifies and the user's \<open>enable2FA\<close> flag is
  set, login returns exactly \<open>{user: null, mfaRequired: true, accessToken: "",
  refreshToken: ""}\<close>, the sessions are those of before, and the only access to a
  collection is the lookup of the user.
\<close>

theorem login_mfa_short_circuit:
  assumes "fst (UserModel_findOne (l_email loginData) d) = Some u"
    and "comparePassword env (l_password loginData) (u_password u)"
    and "u_enable2FA u"
  shows "fst (login env now loginData d) =
           Inr \<lparr>lg_user = None, lg_accessToken = [], lg_refreshToken = [],
                lg_mfaRequired = True\<rparr>
         \<and> sessions (snd (login env now loginData d)) = sessions d
         \<and> calls (snd (login env now loginData d)) =
             calls d @ [UserFindOne (l_email loginData)]"
  using assms
  by (simp add: login_def UserModel_findOne_def Let_def)

theorem login_mfa_short_circuit_witness:
  "fst (UserModel_findOne ''kofi@example.com'' example_db) =
     Some \<lparr>u_id = 2, u_name = ''Kofi'', u_email = ''kofi@example.com'',
           u_password = ''h:pw-kofi'', u_enable2FA = True\<rparr>
   \<and> comparePassword example_env ''pw-kofi'' ''h:pw-kofi''
   \<and> fst (login example_env 0
            \<lparr>l_email = ''kofi@example.com'', l_password = ''pw-kofi'', l_userAgent = ''curl''\<rparr>
            example_db) =
       Inr \<lparr>lg_user = None, lg_accessToken = [], lg_refreshToken = [], lg_mfaRequired = True\<rparr>
   \<and> length (sessions (snd (login example_env 0
            \<lparr>l_email = ''kofi@example.com'', l_password = ''pw-kofi'', l_userAgent = ''curl''\<rparr>
            example_db))) = 3"
proof -
  let ?l = "\<lparr>l_email = ''kofi@example.com'', l_password = ''pw-kofi'', l_userAgent = ''curl''\<rparr>"
  let ?u = "\<lparr>u_id = 2, u_name = ''Kofi'', u_email = ''kofi@example.com'',
             u_password = ''h:pw-kofi'', u_enable2FA = True\<rparr>"
  have f: "fst (UserModel_findOne (l_email ?l) example_db) = Some ?u"
    by (simp add: example_db_def UserModel_findOne_def)
  have ok: "comparePassword example_env (l_password ?l) (u_password ?u)"
    by (simp add: example_env_def)
  have mfa: "u_enable2FA ?u"
    by simp
  have n: "length (sessions example_db) = 3"
    by (simp add: example_db_def)
  from login_mfa_short_circuit [OF f ok mfa, of 0] f ok n
  show ?thesis by simp
qed

section \<open>login: session creation\<close>

text \<open>
  C4. When the user exists, the password verifies and \<open>enable2FA\<close> is false, login
  appends exactly one session, under an identifier no session had, carrying the user's
  id and the submitted user-agent and expiring at \<open>now + REFRESH_EXPIRES_IN\<close>. It
  returns the user, \<open>mfaRequired: false\<close>, an access token signed with the default
  options over the user id and the id of that session, and a refresh token signed with
  the refresh options over the id of that session alone.
\<close>

theorem login_creates_session:
  assumes "fst (UserModel_findOne (l_email loginData) d) = Some u"
    and "comparePassword env (l_password loginData) (u_password u)"
    and "\<not> u_enable2FA u"
  shows "sessions (snd (login env now loginData d)) =
           sessions d @
             [\<lparr>s_id = newObjectId (map s_id (sessions d)), s_userId = u_id u,
               s_userAgent = l_userAgent loginData,
               s_expiredAt = now + int (REFRESH_EXPIRES_IN env)\<rparr>]
         \<and> newObjectId (map s_id (sessions d)) \<notin> set (map s_id (sessions d))
         \<and> fst (login env now loginData d) =
             Inr \<lparr>lg_user = Some u,
                  lg_accessToken =
                    signJwtToken env
                      \<lparr>p_userId = Some (u_id u),
                       p_sessionId = newObjectId (map s_id (sessions d))\<rparr> None,
                  lg_refreshToken =
                    signJwtToken env
                      \<lparr>p_userId = None,
                       p_sessionId = newObjectId (map s_id (sessions d))\<rparr>
                      (Some (refreshTokenSignOptions env)),
                  lg_mfaRequired = False\<rparr>"
  using assms newObjectId_fresh [of "map s_id (sessions d)"]
  by (simp add: login_def UserModel_findOne_def SessionModel_create_def
      calculateExpirationDate_def Let_def)

theorem login_creates_session_witness:
  "fst (UserModel_findOne ''ama@example.com'' example_db) =
     Some \<lparr>u_id = 1, u_name = ''Ama'', u_email = ''ama@example.com'',
           u_password = ''h:pw-ama'', u_enable2FA = False\<rparr>
   \<and> comparePassword example_env ''pw-ama'' ''h:pw-ama''
   \<and> sessions (snd (login example_env 5000
            \<lparr>l_email = ''ama@example.com'', l_password = ''pw-ama'', l_userAgent = ''chrome''\<rparr>
            example_db)) =
       sessions example_db @
         [\<lparr>s_id = 4, s_userId = 1, s_userAgent = ''chrome'', s_expiredAt = 2592005000\<rparr>]
   \<and> fst (login example_env 5000
            \<lparr>l_email = ''ama@example.com'', l_password = ''pw-ama'', l_userAgent = ''chrome''\<rparr>
            example_db) =
       Inr \<lparr>lg_user = Some \<lparr>u_id = 1, u_name = ''Ama'', u_email = ''ama@example.com'',
                              u_password = ''h:pw-ama'', u_enable2FA = False\<rparr>,
            lg_accessToken = ''access-secret.u.ssss'',
            lg_refreshToken = ''refresh-secret.-.ssss'',
            lg_mfaRequired = False\<rparr>"
proof -
  let ?l = "\<lparr>l_email = ''ama@example.com'', l_password = ''pw-ama'', l_userAgent = ''chrome''\<rparr>"
  let ?u = "\<lparr>u_id = 1, u_name = ''Ama'', u_email = ''ama@example.com'',
             u_password = ''h:pw-ama'', u_enable2FA = False\<rparr>"
  have f: "fst (UserModel_findOne (l_email ?l) example_db) = Some ?u"
    by (simp add: example_db_def UserModel_findOne_def)
  have ok: "comparePassword example_env (l_password ?l) (u_password ?u)"
    by (simp add: example_env_def)
  have nomfa: "\<not> u_enable2FA ?u"
    by simp
  have i: "newObjectId (map s_id (sessions example_db)) = 4"
    by (simp add: example_db_def newObjectId_def)
  from login_creates_session [OF f ok nomfa, of 5000] f ok i
  show ?thesis
    by (simp add: example_env_def example_sign_def replicate_numeral_unfold)
qed

section \<open>refreshToken: failures\<close>

text \<open>
  C5. When the token verifies and its session exists, refreshToken fails with the
  Unauthorized failure \<open>Session expired\<close> exactly when the session's \<open>expiredAt\<close> is
  not after the current time (\<open>expiredAt \<le> now\<close>, the complement of the strictly
  future expiry under which a refresh succeeds). On that failure the users, the sessions
  and the verification codes are those of before, the only access to a collection is
  the lookup of the session, and the result carries no token.
\<close>

theorem refreshToken_expired:
  assumes "verifyJwtToken env token (secret (refreshTokenSignOptions env)) = Some payload"
    and "fst (SessionModel_findById (p_sessionId payload) d) = Some session"
  shows "(fst (refreshToken env now token d) =
            Inl (UnauthorizedException ''Session expired'' None)
          \<longleftrightarrow> s_expiredAt session \<le> now)
         \<and> (s_expiredAt session \<le> now \<longrightarrow>
              sessions (snd (refreshToken env now token d)) = sessions d
              \<and> users (snd (refreshToken env now token d)) = users d
              \<and> verificationCodes (snd (refreshToken env now token d)) = verificationCodes d
              \<and> calls (snd (refreshToken env now token d)) =
                  calls d @ [SessionFindById (p_sessionId payload)])"
  using assms
  by (simp add: refreshToken_def SessionModel_findById_def Let_def)

theorem refreshToken_expired_witness:
  "verifyJwtToken example_env ''refresh-secret.-.sss''
     (secret (refreshTokenSignOptions example_env)) = Some \<lparr>p_userId = None, p_sessionId = 3\<rparr>
   \<and> fst (SessionModel_findById 3 example_db) =
       Some \<lparr>s_id = 3, s_userId = 2, s_userAgent = ''safari'', s_expiredAt = - 1\<rparr>
   \<and> fst (refreshToken example_env 0 ''refresh-secret.-.sss'' example_db) =
       Inl \<lparr>e_class = Unauthorized, e_message = ''Session expired'',
            e_errorCode = None\<rparr>
   \<and> sessions (snd (refreshToken example_env 0 ''refresh-secret.-.sss'' example_db)) =
       sessions example_db"
proof -
  let ?s = "\<lparr>s_id = 3, s_userId = 2, s_userAgent = ''safari'', s_expiredAt = - 1\<rparr>"
  have v: "verifyJwtToken example_env ''refresh-secret.-.sss''
             (secret (refreshTokenSignOptions example_env))
           = Some \<lparr>p_userId = None, p_sessionId = 3\<rparr>"
    by (simp add: example_defs)
  have f: "fst (SessionModel_findById (p_sessionId \<lparr>p_userId = None, p_sessionId = 3\<rparr>) example_db)
           = Some ?s"
    by (simp add: example_db_def SessionModel_findById_def)
  have past: "s_expiredAt ?s \<le> 0"
    by simp
  from refreshToken_expired [OF v f, of 0] past v f
  show ?thesis
    by (simp add: UnauthorizedException_def)
qed

text \<open>
  C6. A token that does not verify under the refresh secret, whether malformed or
  wrongly signed, makes refreshToken fail with the Unauthorized failure
  \<open>Invalid refresh token\<close> and return the database as it was received, no access to a
  collection recorded. When the token verifies, the first access is the lookup of the
  session the payload names; so any access to a collection implies a verified token.
\<close>

theorem refreshToken_invalid_token:
  "(verifyJwtToken env token (secret (refreshTokenSignOptions env)) = None \<longrightarrow>
      refreshToken env now token d =
        (Inl (UnauthorizedException ''Invalid refresh token'' None), d))
   \<and> (\<forall>payload.
        verifyJwtToken env token (secret (refreshTokenSignOptions env)) = Some payload \<longrightarrow>
        take (Suc (length (calls d))) (calls (snd (refreshToken env now token d))) =
          calls d @ [SessionFindById (p_sessionId payload)])
   \<and> (calls (snd (refreshToken env now token d)) \<noteq> calls d \<longrightarrow>
        verifyJwtToken env token (secret (refreshTokenSignOptions env)) \<noteq> None)"
  by (auto simp add: refreshToken_def SessionModel_findById_def session_save_def Let_def
      split: option.splits)

theorem refreshToken_invalid_token_witness:
  "verifyJwtToken example_env ''access-secret.u.s''
     (secret (refreshTokenSignOptions example_env)) = None
   \<and> refreshToken example_env 0 ''access-secret.u.s'' example_db =
       (Inl \<lparr>e_class = Unauthorized, e_message = ''Invalid refresh token'',
             e_errorCode = None\<rparr>, example_db)
   \<and> verifyJwtToken example_env ''refresh-secret.-.ss''
       (secret (refreshTokenSignOptions example_env)) = Some \<lparr>p_userId = None, p_sessionId = 2\<rparr>
   \<and> calls (snd (refreshToken example_env 0 ''refresh-secret.-.ss'' example_db)) =
       [SessionFindById 2]"
proof -
  have bad: "verifyJwtToken example_env ''access-secret.u.s''
               (secret (refreshTokenSignOptions example_env)) = None"
    by (simp add: example_defs)
  have good: "verifyJwtToken example_env ''refresh-secret.-.ss''
                (secret (refreshTokenSignOptions example_env))
              = Some \<lparr>p_userId = None, p_sessionId = 2\<rparr>"
    by (simp add: example_defs)
  have c: "calls example_db = []"
    by (simp add: example_db_def)
  have l: "length (calls (snd (refreshToken example_env 0 ''refresh-secret.-.ss'' example_db))) = 1"
    using good
    by (simp add: refreshToken_def example_db_def SessionModel_findById_def clock_defs Let_def)
  from refreshToken_invalid_token [of example_env "''access-secret.u.s''" 0 example_db] bad
  have 1: "refreshToken example_env 0 ''access-secret.u.s'' example_db =
             (Inl (UnauthorizedException ''Invalid refresh token'' None), example_db)"
    by blast
  from refreshToken_invalid_token [of example_env "''refresh-secret.-.ss''" 0 example_db] good
  have "take (Suc (length (calls example_db)))
          (calls (snd (refreshToken example_env 0 ''refresh-secret.-.ss'' example_db))) =
        calls example_db @ [SessionFindById (p_sessionId \<lparr>p_userId = None, p_sessionId = 2\<rparr>)]"
    by blast
  with c l have 2: "calls (snd (refreshToken example_env 0 ''refresh-secret.-.ss'' example_db)) =
                      [SessionFindById 2]"
    by simp
  from bad good 1 2 show ?thesis
    by (simp add: UnauthorizedException_def)
qed

section \<open>register\<close>

text \<open>
  C7. If a user with the submitted email exists, register fails with the BadRequest
  failure coded \<open>AUTH_EMAIL_ALREADY_EXISTS\<close> and neither a user nor a verification
  code is created. Otherwise it appends the new user, appends exactly one verification
  code of type \<open>EMAIL_VERIFICATION\<close> owned by that user and expiring 45 minutes after
  \<open>now\<close>, and returns the created user; the result has no token and no session is
  created.
\<close>

theorem register_outcomes:
  "(fst (UserModel_exists (r_email registerData) d) \<longrightarrow>
      fst (register env now registerData d) =
        Inl \<lparr>e_class = BadRequest, e_message = ''User already exists with this email'',
             e_errorCode = Some AUTH_EMAIL_ALREADY_EXISTS\<rparr>
      \<and> users (snd (register env now registerData d)) = users d
      \<and> verificationCodes (snd (register env now registerData d)) = verificationCodes d
      \<and> calls (snd (register env now registerData d)) =
          calls d @ [UserExists (r_email registerData)])
   \<and> (\<not> fst (UserModel_exists (r_email registerData) d) \<longrightarrow>
      (\<forall>newUser.
         newUser = \<lparr>u_id = newObjectId (map u_id (users d)), u_name = r_name registerData,
                    u_email = r_email registerData,
                    u_password = hashValue env (r_password registerData),
                    u_enable2FA = defaultEnable2FA env\<rparr> \<longrightarrow>
         fst (register env now registerData d) = Inr \<lparr>reg_user = newUser\<rparr>
         \<and> users (snd (register env now registerData d)) = users d @ [newUser]
         \<and> verificationCodes (snd (register env now registerData d)) =
             verificationCodes d @
               [\<lparr>v_id = newObjectId (map v_id (verificationCodes d)), v_userId = u_id newUser,
                 v_type = EMAIL_VERIFICATION, v_expiresAt = now + 45 * 60 * 1000\<rparr>]
         \<and> sessions (snd (register env now registerData d)) = sessions d))"
  by (simp add: register_def UserModel_exists_def UserModel_create_def
      VerificationCodeModel_create_def fortyFiveMinutesFromNow_def BadRequestException_def
      Let_def)

theorem register_outcomes_witness:
  "fst (UserModel_exists ''ama@example.com'' example_db)
   \<and> fst (register example_env 0
            \<lparr>r_name = ''Esi'', r_email = ''ama@example.com'', r_password = ''pw-esi''\<rparr>
            example_db) =
       Inl \<lparr>e_class = BadRequest, e_message = ''User already exists with this email'',
            e_errorCode = Some AUTH_EMAIL_ALREADY_EXISTS\<rparr>
   \<and> users (snd (register example_env 0
            \<lparr>r_name = ''Esi'', r_email = ''ama@example.com'', r_password = ''pw-esi''\<rparr>
            example_db)) = users example_db
   \<and> \<not> fst (UserModel_exists ''esi@example.com'' example_db)
   \<and> fst (register example_env 0
            \<lparr>r_name = ''Esi'', r_email = ''esi@example.com'', r_password = ''pw-esi''\<rparr>
            example_db) =
       Inr \<lparr>reg_user = \<lparr>u_id = 3, u_name = ''Esi'', u_email = ''esi@example.com'',
                           u_password = ''h:pw-esi'', u_enable2FA = False\<rparr>\<rparr>
   \<and> verificationCodes (snd (register example_env 0
            \<lparr>r_name = ''Esi'', r_email = ''esi@example.com'', r_password = ''pw-esi''\<rparr>
            example_db)) =
       [\<lparr>v_id = 1, v_userId = 3, v_type = EMAIL_VERIFICATION, v_expiresAt = 2700000\<rparr>]"
proof -
  let ?dup = "\<lparr>r_name = ''Esi'', r_email = ''ama@example.com'', r_password = ''pw-esi''\<rparr>"
  let ?new = "\<lparr>r_name = ''Esi'', r_email = ''esi@example.com'', r_password = ''pw-esi''\<rparr>"
  have taken: "fst (UserModel_exists (r_email ?dup) example_db)"
    by (simp add: example_db_def UserModel_exists_def)
  have free: "\<not> fst (UserModel_exists (r_email ?new) example_db)"
    by (simp add: example_db_def UserModel_exists_def)
  have ids: "newObjectId (map u_id (users example_db)) = 3"
    "newObjectId (map v_id (verificationCodes example_db)) = 1"
    "verificationCodes example_db = []"
    by (simp_all add: example_db_def newObjectId_def)
  from register_outcomes [of ?dup example_db example_env 0] taken
  have 1: "fst (register example_env 0 ?dup example_db) =
             Inl \<lparr>e_class = BadRequest, e_message = ''User already exists with this email'',
                  e_errorCode = Some AUTH_EMAIL_ALREADY_EXISTS\<rparr>
           \<and> users (snd (register example_env 0 ?dup example_db)) = users example_db"
    by blast
  from register_outcomes [of ?new example_db example_env 0] free
  have 2: "fst (register example_env 0 ?new example_db) =
             Inr \<lparr>reg_user =
                    \<lparr>u_id = newObjectId (map u_id (users example_db)), u_name = r_name ?new,
                     u_email = r_email ?new,
                     u_password = hashValue example_env (r_password ?new),
                     u_enable2FA = defaultEnable2FA example_env\<rparr>\<rparr>
           \<and> verificationCodes (snd (register example_env 0 ?new example_db)) =
               verificationCodes example_db @
                 [\<lparr>v_id = newObjectId (map v_id (verificationCodes example_db)),
                   v_userId = newObjectId (map u_id (users example_db)),
                   v_type = EMAIL_VERIFICATION, v_expiresAt = 0 + 45 * 60 * 1000\<rparr>]"
    by simp
  from taken free 1 2 ids show ?thesis
    by (simp add: example_env_def)
qed

section \<open>Failures\<close>




section \<open>login: order of the checks\<close>

text \<open>
  C10. The two-factor gate comes after the password check. A login for a user whose
  \<open>enable2FA\<close> flag is set and whose password does not verify fails with the BadRequest
  failure coded \<open>AUTH_USER_NOT_FOUND\<close>, so it returns no response at all; and any
  login that answers \<open>mfaRequired: true\<close> found a user whose password verified.
\<close>

theorem mfa_gate_after_credentials:
  "(\<forall>u. fst (UserModel_findOne (l_email loginData) d) = Some u \<and> u_enable2FA u
         \<and> \<not> comparePassword env (l_password loginData) (u_password u) \<longrightarrow>
         fst (login env now loginData d) =
           Inl \<lparr>e_class = BadRequest, e_message = ''Invalid email or password provided'',
                e_errorCode = Some AUTH_USER_NOT_FOUND\<rparr>)
   \<and> (\<forall>r. fst (login env now loginData d) = Inr r \<and> lg_mfaRequired r \<longrightarrow>
         (\<exists>u. fst (UserModel_findOne (l_email loginData) d) = Some u \<and> u_enable2FA u
              \<and> comparePassword env (l_password loginData) (u_password u)))"
  by (auto simp add: login_def store_defs BadRequestException_def Let_def
      split: option.splits if_splits)

theorem mfa_gate_after_credentials_witness:
  "fst (UserModel_findOne ''kofi@example.com'' example_db) =
     Some \<lparr>u_id = 2, u_name = ''Kofi'', u_email = ''kofi@example.com'',
           u_password = ''h:pw-kofi'', u_enable2FA = True\<rparr>
   \<and> \<not> comparePassword example_env ''guess'' ''h:pw-kofi''
   \<and> fst (login example_env 0
            \<lparr>l_email = ''kofi@example.com'', l_password = ''guess'', l_userAgent = ''curl''\<rparr>
            example_db) =
       Inl \<lparr>e_class = BadRequest, e_message = ''Invalid email or password provided'',
            e_errorCode = Some AUTH_USER_NOT_FOUND\<rparr>
   \<and> fst (login example_env 0
            \<lparr>l_email = ''kofi@example.com'', l_password = ''pw-kofi'', l_userAgent = ''curl''\<rparr>
            example_db) =
       Inr \<lparr>lg_user = None, lg_accessToken = [], lg_refreshToken = [], lg_mfaRequired = True\<rparr>
   \<and> comparePassword example_env ''pw-kofi'' ''h:pw-kofi''"
proof -
  let ?bad = "\<lparr>l_email = ''kofi@example.com'', l_password = ''guess'', l_userAgent = ''curl''\<rparr>"
  let ?good = "\<lparr>l_email = ''kofi@example.com'', l_password = ''pw-kofi'', l_userAgent = ''curl''\<rparr>"
  let ?u = "\<lparr>u_id = 2, u_name = ''Kofi'', u_email = ''kofi@example.com'',
             u_password = ''h:pw-kofi'', u_enable2FA = True\<rparr>"
  let ?r = "\<lparr>lg_user = None, lg_accessToken = [], lg_refreshToken = [], lg_mfaRequired = True\<rparr>"
  have f: "fst (UserModel_findOne (l_email ?bad) example_db) = Some ?u"
    "fst (UserModel_findOne (l_email ?good) example_db) = Some ?u"
    by (simp_all add: example_db_def UserModel_findOne_def)
  have wrong: "\<not> comparePassword example_env (l_password ?bad) (u_password ?u)"
    by (simp add: example_env_def)
  have answered: "fst (login example_env 0 ?good example_db) = Inr ?r"
    by (simp add: login_def example_env_def example_db_def UserModel_findOne_def Let_def)
  from mfa_gate_after_credentials [of ?bad example_db example_env 0] f(1) wrong
  have 1: "fst (login example_env 0 ?bad example_db) =
             Inl \<lparr>e_class = BadRequest, e_message = ''Invalid email or password provided'',
                  e_errorCode = Some AUTH_USER_NOT_FOUND\<rparr>"
    by simp
  from mfa_gate_after_credentials [of ?good example_db example_env 0] answered f(2)
  have 2: "comparePassword example_env (l_password ?good) (u_password ?u)"
    by auto
  from f wrong 1 2 answered show ?thesis
    by simp
qed

section \<open>Session lifetimes never shrink, under a condition\<close>

lemma expiredAt_nondecreasing_append: "expiredAt_nondecreasing ss (ss @ new)"
  by (induction ss) auto

lemma expiredAt_nondecreasing_refl: "expiredAt_nondecreasing ss ss"
  using expiredAt_nondecreasing_append [of ss "[]"] by simp

lemma expiredAt_nondecreasing_replaceById:
  "find (\<lambda>x. s_id x = s_id s) ss = Some s0 \<Longrightarrow> s_expiredAt s0 \<le> s_expiredAt s \<Longrightarrow>
   expiredAt_nondecreasing ss (replaceById s ss)"
  by (induction ss) (auto simp add: expiredAt_nondecreasing_refl split: if_splits)

lemma expires_within_find:
  "expires_within bound ss \<Longrightarrow> find P ss = Some s \<Longrightarrow> s_expiredAt s \<le> bound"
  using find_in_set [of P ss s] by (auto simp add: expires_within_def list_all_iff)

lemma expires_within_replaceById:
  "expires_within bound ss \<Longrightarrow> s_expiredAt s \<le> bound \<Longrightarrow>
   expires_within bound (replaceById s ss)"
  by (induction ss) (auto simp add: expires_within_def)

lemma expires_within_mono:
  "expires_within bound ss \<Longrightarrow> bound \<le> bound' \<Longrightarrow> expires_within bound' ss"
  by (auto simp add: expires_within_def list_all_iff)

text \<open>
  The bound \<open>now + REFRESH_EXPIRES_IN\<close> on every stored expiry is kept by the three
  methods as the clock advances: it holds of the empty database and so of every
  database that only this service, under one configuration, has written.
\<close>

lemma expires_within_register:
  "expires_within (t + int (REFRESH_EXPIRES_IN env)) (sessions d) \<Longrightarrow> t \<le> now \<Longrightarrow>
   expires_within (now + int (REFRESH_EXPIRES_IN env))
     (sessions (snd (register env now registerData d)))"
  using expires_within_mono [of "t + int (REFRESH_EXPIRES_IN env)" "sessions d"
      "now + int (REFRESH_EXPIRES_IN env)"]
  by (simp add: register_def store_defs Let_def)

lemma expires_within_login:
  "expires_within (t + int (REFRESH_EXPIRES_IN env)) (sessions d) \<Longrightarrow> t \<le> now \<Longrightarrow>
   expires_within (now + int (REFRESH_EXPIRES_IN env))
     (sessions (snd (login env now loginData d)))"
  using expires_within_mono [of "t + int (REFRESH_EXPIRES_IN env)" "sessions d"
      "now + int (REFRESH_EXPIRES_IN env)"]
  by (simp add: login_def store_defs calculateExpirationDate_def Let_def expires_within_def
      split: option.splits)

lemma expires_within_refreshToken:
  assumes "expires_within (t + int (REFRESH_EXPIRES_IN env)) (sessions d)" and "t \<le> now"
  shows "expires_within (now + int (REFRESH_EXPIRES_IN env))
           (sessions (snd (refreshToken env now token d)))"
proof -
  from assms have w: "expires_within (now + int (REFRESH_EXPIRES_IN env)) (sessions d)"
    using expires_within_mono by simp
  then have "expires_within (now + int (REFRESH_EXPIRES_IN env))
               (replaceById (s\<lparr>s_expiredAt := now + int (REFRESH_EXPIRES_IN env)\<rparr>) (sessions d))"
    for s
    by (simp add: expires_within_replaceById)
  with w show ?thesis
    by (simp add: refreshToken_def SessionModel_findById_def session_save_def
        calculateExpirationDate_def Let_def split: option.splits)
qed

text \<open>
  C8, as the code has it. No operation lowers the \<open>expiredAt\<close> of a stored session,
  provided the configured refresh lifetime is at least the rotation threshold
  \<open>ONE_DAY_IN_MS\<close>, or no stored session expires later than \<open>now + REFRESH_EXPIRES_IN\<close>.
  register and login leave the existing sessions as they are; the rotation of
  refreshToken writes \<open>now + REFRESH_EXPIRES_IN\<close> over an expiry that is at most
  \<open>now + ONE_DAY_IN_MS\<close>.
\<close>

theorem expiredAt_never_decreases:
  assumes "ONE_DAY_IN_MS \<le> int (REFRESH_EXPIRES_IN env)
           \<or> expires_within (now + int (REFRESH_EXPIRES_IN env)) (sessions d)"
  shows "expiredAt_nondecreasing (sessions d) (sessions (snd (register env now registerData d)))
         \<and> expiredAt_nondecreasing (sessions d) (sessions (snd (login env now loginData d)))
         \<and> expiredAt_nondecreasing (sessions d) (sessions (snd (refreshToken env now token d)))"
proof -
  have reg: "expiredAt_nondecreasing (sessions d)
               (sessions (snd (register env now registerData d)))"
    by (simp add: register_def store_defs Let_def expiredAt_nondecreasing_refl)
  have log: "expiredAt_nondecreasing (sessions d) (sessions (snd (login env now loginData d)))"
    by (simp add: login_def store_defs Let_def expiredAt_nondecreasing_refl
        expiredAt_nondecreasing_append split: option.splits)
  have rot: "expiredAt_nondecreasing (sessions d)
               (replaceById (s\<lparr>s_expiredAt := now + int (REFRESH_EXPIRES_IN env)\<rparr>) (sessions d))"
    if f: "find (\<lambda>x. s_id x = i) (sessions d) = Some s"
      and near: "s_expiredAt s - now \<le> ONE_DAY_IN_MS" for s i
  proof -
    from f have i: "s_id s = i"
      by (rule find_by_id)
    from assms have "s_expiredAt s \<le> now + int (REFRESH_EXPIRES_IN env)"
    proof
      assume "ONE_DAY_IN_MS \<le> int (REFRESH_EXPIRES_IN env)"
      with near show ?thesis by linarith
    next
      assume "expires_within (now + int (REFRESH_EXPIRES_IN env)) (sessions d)"
      then show ?thesis using f by (rule expires_within_find)
    qed
    then show ?thesis
      using expiredAt_nondecreasing_replaceById
        [of "s\<lparr>s_expiredAt := now + int (REFRESH_EXPIRES_IN env)\<rparr>" "sessions d" s] f i
      by simp
  qed
  have ref: "expiredAt_nondecreasing (sessions d)
               (sessions (snd (refreshToken env now token d)))"
    using rot
    by (simp add: refreshToken_def SessionModel_findById_def session_save_def
        calculateExpirationDate_def Let_def expiredAt_nondecreasing_refl split: option.splits)
  from reg log ref show ?thesis by simp
qed

theorem expiredAt_never_decreases_witness:
  "ONE_DAY_IN_MS \<le> int (REFRESH_EXPIRES_IN example_env)
   \<and> map s_expiredAt (sessions example_db) = [43200000, 172800000, - 1]
   \<and> map s_expiredAt
       (sessions (snd (refreshToken example_env 0 ''refresh-secret.-.s'' example_db))) =
       [2592000000, 172800000, - 1]
   \<and> expiredAt_nondecreasing (sessions example_db)
       (sessions (snd (refreshToken example_env 0 ''refresh-secret.-.s'' example_db)))"
proof -
  have long: "ONE_DAY_IN_MS \<le> int (REFRESH_EXPIRES_IN example_env)"
    by (simp add: ONE_DAY_IN_MS_def example_env_def)
  then have h: "ONE_DAY_IN_MS \<le> int (REFRESH_EXPIRES_IN example_env)
                \<or> expires_within (0 + int (REFRESH_EXPIRES_IN example_env)) (sessions example_db)"
    by (rule disjI1)
  have before: "map s_expiredAt (sessions example_db) = [43200000, 172800000, - 1]"
    by (simp add: example_db_def)
  have after: "map s_expiredAt
                 (sessions (snd (refreshToken example_env 0 ''refresh-secret.-.s'' example_db))) =
               [2592000000, 172800000, - 1]"
    by (simp add: refreshToken_def example_defs SessionModel_findById_def session_save_def
        clock_defs Let_def)
  from expiredAt_never_decreases [OF h, of _ _ "''refresh-secret.-.s''"] long before after
  show ?thesis by simp
qed

text \<open>
  C8 as stated fails. With a refresh lifetime of one hour, the session that still had
  twelve hours to live is rotated at time 0 to expire after one hour: a session written
  while the lifetime was longer, or by another writer of the store, is shortened.
\<close>

theorem rotation_shortens_counterexample:
  "REFRESH_EXPIRES_IN short_lived_env = 3600000
   \<and> map s_expiredAt (sessions example_db) = [43200000, 172800000, - 1]
   \<and> map s_expiredAt
       (sessions (snd (refreshToken short_lived_env 0 ''refresh-secret.-.s'' example_db))) =
       [3600000, 172800000, - 1]
   \<and> \<not> expiredAt_nondecreasing (sessions example_db)
         (sessions (snd (refreshToken short_lived_env 0 ''refresh-secret.-.s'' example_db)))"
  by (simp add: refreshToken_def short_lived_env_def example_defs SessionModel_findById_def
      session_save_def clock_defs Let_def)

end
